theory Spec2Isabelle
  imports Main "HOL-Library.Word"
begin

section \<open>JavaScript values and transaction records\<close>

text \<open>
  The classifier of \<^verbatim>\<open>detect_transaction_type.ts\<close> reads a transaction that was cast
  from \<^verbatim>\<open>Record<string, unknown>\<close>, so a field may hold any JavaScript value. The
  values the code distinguishes are \<^verbatim>\<open>undefined\<close>, \<^verbatim>\<open>null\<close>, strings (compared with
  \<^verbatim>\<open>===\<close> in the \<^verbatim>\<open>switch\<close> and in \<^verbatim>\<open>indexOf\<close>), numbers and arrays (an access list).
\<close>

datatype jsval = Undefined | Null | Str string | Num int | Arr "jsval list"

text \<open>
  Modelled from the spec: \<^verbatim>\<open>isNullish\<close> of \<^verbatim>\<open>web3-validator\<close> is imported, not defined,
  by the source file. The spec's data model says that absent and null are equivalent and both
  denote a field that is not set.
\<close>

definition isNullish :: "jsval \<Rightarrow> bool" where
  "isNullish v = (v = Undefined \<or> v = Null)"

text \<open>
  The fields of \<^verbatim>\<open>Transaction\<close> that the file reads. \<open>common\<close> is \<open>None\<close> when
  \<^verbatim>\<open>tx.common\<close> is nullish (the optional chaining \<^verbatim>\<open>tx.common?.hardfork\<close> then yields
  \<^verbatim>\<open>undefined\<close>) and \<open>Some h\<close> when it is an object whose \<^verbatim>\<open>hardfork\<close> property reads
  \<open>h\<close>.
\<close>

record transaction =
  type :: jsval
  gas :: jsval
  gasPrice :: jsval
  maxFeePerGas :: jsval
  maxPriorityFeePerGas :: jsval
  accessList :: jsval
  hardfork :: jsval
  common :: "jsval option"

text \<open>
  Reading a property of the transaction object by its name, as a schema validator does. A
  name that is none of the value fields above reads as \<^verbatim>\<open>undefined\<close>; the schemas of the
  file name fee and access-list fields only.
\<close>

definition property :: "transaction \<Rightarrow> string \<Rightarrow> jsval" where
  "property tx name =
     (if name = ''type'' then type tx
      else if name = ''gas'' then gas tx
      else if name = ''gasPrice'' then gasPrice tx
      else if name = ''maxFeePerGas'' then maxFeePerGas tx
      else if name = ''maxPriorityFeePerGas'' then maxPriorityFeePerGas tx
      else if name = ''accessList'' then accessList tx
      else if name = ''hardfork'' then hardfork tx
      else Undefined)"

datatype error =
    Web3ValidatorError "string list"
  | InvalidPropertiesForTransactionTypeError "string list" string
  | HexProcessingError

section \<open>Compatibility schemas and their validator\<close>

text \<open>
  The three schemas of the source are objects
  \<^verbatim>\<open>{ type: 'object', properties: { name: { type: 'null' }, ... } }\<close>.
  A schema is the list of its properties with the JSON type each one requires; \<^verbatim>\<open>'null'\<close>
  is the only type the file uses.
\<close>

datatype json_type = TypeNull

datatype json_schema = ObjectSchema "(string \<times> json_type) list"

definition transactionType0x0Schema :: json_schema where
  "transactionType0x0Schema =
     ObjectSchema [(''accessList'', TypeNull), (''maxFeePerGas'', TypeNull),
                   (''maxPriorityFeePerGas'', TypeNull)]"

definition transactionType0x1Schema :: json_schema where
  "transactionType0x1Schema =
     ObjectSchema [(''maxFeePerGas'', TypeNull), (''maxPriorityFeePerGas'', TypeNull)]"

definition transactionType0x2Schema :: json_schema where
  "transactionType0x2Schema = ObjectSchema [(''gasPrice'', TypeNull)]"

text \<open>
  Modelled from the spec: \<^verbatim>\<open>validator.validateJSONSchema\<close> of \<^verbatim>\<open>web3-validator\<close> is
  imported, not defined, by the source file. The spec's compatibility validator collects
  every forbidden field that is present (non-null) on the record as a violation, fails with
  the violating field names if there is any, and does not fail otherwise. The source's
  comment on the schemas adds that \<^verbatim>\<open>undefined\<close> is treated as \<^verbatim>\<open>null\<close>.
\<close>

fun conforms :: "json_type \<Rightarrow> jsval \<Rightarrow> bool" where
  "conforms TypeNull v = isNullish v"

fun violations :: "json_schema \<Rightarrow> transaction \<Rightarrow> string list" where
  "violations (ObjectSchema props) tx =
     map fst (filter (\<lambda>(name, ty). \<not> conforms ty (property tx name)) props)"

definition validateJSONSchema :: "json_schema \<Rightarrow> transaction \<Rightarrow> error + unit" where
  "validateJSONSchema schema tx =
     (let errors = violations schema tx
      in if errors = [] then Inr () else Inl (Web3ValidatorError errors))"

text \<open>
  \<^verbatim>\<open>validateTxTypeAndHandleErrors\<close>: a \<^verbatim>\<open>Web3ValidatorError\<close> is caught and thrown again as
  an \<^verbatim>\<open>InvalidPropertiesForTransactionTypeError\<close> with the same error list and the type
  checked against; any other error is thrown again as it is.
\<close>

definition validateTxTypeAndHandleErrors ::
  "json_schema \<Rightarrow> transaction \<Rightarrow> string \<Rightarrow> error + unit" where
  "validateTxTypeAndHandleErrors txSchema tx txType =
     (case validateJSONSchema txSchema tx of
        Inl (Web3ValidatorError errors) \<Rightarrow>
          Inl (InvalidPropertiesForTransactionTypeError errors txType)
      | Inl e \<Rightarrow> Inl e
      | Inr u \<Rightarrow> Inr u)"

section \<open>The field-based classifier\<close>

text \<open>
  \<^verbatim>\<open>Array.prototype.indexOf\<close> on the list of keys of \<^verbatim>\<open>HardforksOrdered\<close>: the first
  position whose key is strictly equal to the value, and \<open>-1\<close> when there is none.
\<close>

fun indexOf :: "string list \<Rightarrow> jsval \<Rightarrow> int" where
  "indexOf [] v = - 1"
| "indexOf (k # ks) v =
     (if Str k = v then 0
      else (let i = indexOf ks v in if i = - 1 then - 1 else i + 1))"

text \<open>
  The source tests \<^verbatim>\<open>hardforkIndex === undefined\<close> on the number that \<^verbatim>\<open>indexOf\<close>
  returned; a number is never strictly equal to \<^verbatim>\<open>undefined\<close>.
\<close>

definition number_is_undefined :: "int \<Rightarrow> bool" where
  "number_is_undefined i = False"

text \<open>\<^verbatim>\<open>tx.hardfork ?? tx.common?.hardfork\<close>.\<close>

definition givenHardfork :: "transaction \<Rightarrow> jsval" where
  "givenHardfork tx =
     (if isNullish (hardfork tx)
      then (case common tx of None \<Rightarrow> Undefined | Some h \<Rightarrow> h)
      else hardfork tx)"

text \<open>
  The \<^verbatim>\<open>switch (tx.type)\<close> of the source: the schema chosen for each of the three string
  tags, together with the tag itself (the third argument of the validation), and \<open>None\<close>
  for the \<^verbatim>\<open>default\<close> case.
\<close>

definition switch_type :: "jsval \<Rightarrow> (json_schema \<times> string) option" where
  "switch_type v =
     (if v = Str ''0x0'' then Some (transactionType0x0Schema, ''0x0'')
      else if v = Str ''0x1'' then Some (transactionType0x1Schema, ''0x1'')
      else if v = Str ''0x2'' then Some (transactionType0x2Schema, ''0x2'')
      else None)"

text \<open>
  \<^verbatim>\<open>defaultTransactionTypeParser\<close>. Two things it uses are imported by the source file and
  are parameters here: \<open>fmt\<close> stands for
  \<^verbatim>\<open>format({ format: 'uint' }, _, ETH_DATA_FORMAT)\<close> of \<^verbatim>\<open>web3-utils\<close>, and \<open>hardforks\<close>
  for \<^verbatim>\<open>Object.keys(HardforksOrdered)\<close> of \<^verbatim>\<open>web3-types\<close>. The result is \<open>Inl\<close> of the
  error thrown, or \<open>Inr\<close> of the value returned, \<open>Inr Undefined\<close> being the indeterminate
  result.
\<close>

definition defaultTransactionTypeParser ::
  "(jsval \<Rightarrow> jsval) \<Rightarrow> string list \<Rightarrow> transaction \<Rightarrow> error + jsval" where
  "defaultTransactionTypeParser fmt hardforks tx =
     (if \<not> isNullish (type tx) then
        (case switch_type (type tx) of
           None \<Rightarrow> Inr (fmt (type tx))
         | Some (txSchema, txType) \<Rightarrow>
             (case validateTxTypeAndHandleErrors txSchema tx txType of
                Inl e \<Rightarrow> Inl e
              | Inr _ \<Rightarrow> Inr (fmt (type tx))))
      else if \<not> isNullish (gas tx) \<and> \<not> isNullish (gasPrice tx) then
        (case validateTxTypeAndHandleErrors transactionType0x0Schema tx ''0x0'' of
           Inl e \<Rightarrow> Inl e
         | Inr _ \<Rightarrow> Inr (Str ''0x0''))
      else if \<not> isNullish (maxFeePerGas tx) \<or> \<not> isNullish (maxPriorityFeePerGas tx) then
        (case validateTxTypeAndHandleErrors transactionType0x2Schema tx ''0x2'' of
           Inl e \<Rightarrow> Inl e
         | Inr _ \<Rightarrow> Inr (Str ''0x2''))
      else if \<not> isNullish (accessList tx) then
        (case validateTxTypeAndHandleErrors transactionType0x1Schema tx ''0x1'' of
           Inl e \<Rightarrow> Inl e
         | Inr _ \<Rightarrow> Inr (Str ''0x1''))
      else
        (case (if \<not> isNullish (gasPrice tx)
               then validateTxTypeAndHandleErrors transactionType0x0Schema tx ''0x0''
               else Inr ()) of
           Inl e \<Rightarrow> Inl e
         | Inr _ \<Rightarrow>
             (if givenHardfork tx = Undefined then Inr Undefined
              else
                (let hardforkIndex = indexOf hardforks (givenHardfork tx)
                 in if number_is_undefined hardforkIndex then Inr Undefined
                    else if hardforkIndex \<ge> indexOf hardforks (Str ''london'')
                    then Inr (if \<not> isNullish (gasPrice tx) then Str ''0x0'' else Str ''0x2'')
                    else if hardforkIndex = indexOf hardforks (Str ''berlin'')
                    then Inr (Str ''0x0'')
                    else Inr Undefined))))"

section \<open>The structural sniffer\<close>

text \<open>Lowercase hexadecimal digits of a natural number, most significant first.\<close>

definition hex_digit :: "nat \<Rightarrow> char" where
  "hex_digit d = ''0123456789abcdef'' ! (d mod 16)"

fun hex_digits :: "nat \<Rightarrow> string" where
  "hex_digits n =
     (if n < 16 then [hex_digit n] else hex_digits (n div 16) @ [hex_digit (n mod 16)])"

declare hex_digits.simps [simp del]

definition numberToHex :: "nat \<Rightarrow> string" where
  "numberToHex n = ''0x'' @ hex_digits n"

text \<open>
  Modelled from the spec: \<^verbatim>\<open>toHex\<close> of \<^verbatim>\<open>web3-utils\<close> is imported, not defined, by the
  source file. The spec has the sniffer return the byte itself as a hexadecimal string behind
  the two-character prefix \<^verbatim>\<open>0x\<close>, byte \<^verbatim>\<open>0x02\<close> giving \<^verbatim>\<open>"0x2"\<close>, and lets the operation
  fail only on an empty input. The argument is what \<^verbatim>\<open>transaction[0]\<close> can be: a number, or
  \<open>None\<close> for \<^verbatim>\<open>undefined\<close>.
\<close>

definition toHex :: "int option \<Rightarrow> error + string" where
  "toHex v =
     (case v of
        None \<Rightarrow> Inl HexProcessingError
      | Some n \<Rightarrow> if 0 \<le> n then Inr (numberToHex (nat n)) else Inl HexProcessingError)"

text \<open>
  \<^verbatim>\<open>transaction[0]\<close> on a \<^verbatim>\<open>Uint8Array\<close> is the first byte as a number, or
  \<^verbatim>\<open>undefined\<close> when the array is empty; \<^verbatim>\<open>undefined > 0x7f\<close> is false.
\<close>

definition first_byte :: "8 word list \<Rightarrow> int option" where
  "first_byte transaction = (case transaction of [] \<Rightarrow> None | b # _ \<Rightarrow> Some (uint b))"

definition greater_than :: "int option \<Rightarrow> int \<Rightarrow> bool" where
  "greater_than v k = (case v of None \<Rightarrow> False | Some n \<Rightarrow> n > k)"

definition detectRawTransactionType :: "8 word list \<Rightarrow> error + string" where
  "detectRawTransactionType transaction =
     (if greater_than (first_byte transaction) 0x7f then Inr ''0x0''
      else toHex (first_byte transaction))"

section \<open>Instances of the imported parts\<close>

text \<open>
  Modelled from the spec: \<^verbatim>\<open>format\<close> of \<^verbatim>\<open>web3-utils\<close> is imported, not defined, by the
  source file. The spec has an explicit type formatted as a canonical uint, tags being
  \<^verbatim>\<open>0x\<close>-prefixed lowercase hexadecimal strings, so that \<^verbatim>\<open>0x00\<close> and \<^verbatim>\<open>0x02\<close> are other
  spellings of the tags \<^verbatim>\<open>0x0\<close> and \<^verbatim>\<open>0x2\<close>. A hexadecimal string and a non-negative
  number are rendered by \<open>numberToHex\<close>; the spec fixes nothing for any other value, which is
  left as it is. The theorems on the classifier hold for every formatter; this one serves
  where a concrete formatter is needed.
\<close>

definition hex_digit_value :: "char \<Rightarrow> nat option" where
  "hex_digit_value c =
     (let n = (of_char c :: nat)
      in if 48 \<le> n \<and> n \<le> 57 then Some (n - 48)
         else if 97 \<le> n \<and> n \<le> 102 then Some (n - 87)
         else if 65 \<le> n \<and> n \<le> 70 then Some (n - 55)
         else None)"

fun parse_hex_digits :: "nat \<Rightarrow> string \<Rightarrow> nat option" where
  "parse_hex_digits acc [] = Some acc"
| "parse_hex_digits acc (c # cs) =
     (case hex_digit_value c of
        None \<Rightarrow> None
      | Some d \<Rightarrow> parse_hex_digits (16 * acc + d) cs)"

definition hexToNumber :: "string \<Rightarrow> nat option" where
  "hexToNumber s =
     (if take 2 s = ''0x'' \<and> drop 2 s \<noteq> [] then parse_hex_digits 0 (drop 2 s) else None)"

definition format_uint :: "jsval \<Rightarrow> jsval" where
  "format_uint v =
     (case v of
        Str s \<Rightarrow> (case hexToNumber s of Some n \<Rightarrow> Str (numberToHex n) | None \<Rightarrow> v)
      | Num n \<Rightarrow> if 0 \<le> n then Str (numberToHex (nat n)) else v
      | _ \<Rightarrow> v)"

text \<open>
  The upgrade names the spec mentions, oldest first: a table of hardfork keys for concrete
  instances. The theorems on the classifier hold for every table that has \<^verbatim>\<open>berlin\<close> and
  \<^verbatim>\<open>london\<close> among its keys.
\<close>

definition example_hardforks :: "string list" where
  "example_hardforks = [''homestead'', ''berlin'', ''london'']"

text \<open>A transaction with every field unset, to build concrete records from.\<close>

definition empty_tx :: transaction where
  "empty_tx =
     \<lparr>type = Undefined, gas = Undefined, gasPrice = Undefined, maxFeePerGas = Undefined,
      maxPriorityFeePerGas = Undefined, accessList = Undefined, hardfork = Undefined,
      common = None\<rparr>"

section \<open>Auxiliary facts\<close>

lemma indexOf_ge: "- 1 \<le> indexOf ks v"
  by (induction ks) (auto simp: Let_def)

lemma indexOf_absent: "v \<notin> Str ` set ks \<Longrightarrow> indexOf ks v = - 1"
  by (induction ks) (auto simp: Let_def)

lemma indexOf_present: "v \<in> Str ` set ks \<Longrightarrow> 0 \<le> indexOf ks v"
proof (induction ks)
  case Nil
  then show ?case by simp
next
  case (Cons k ks)
  show ?case
  proof (cases "Str k = v")
    case True
    then show ?thesis by simp
  next
    case False
    with Cons.prems have "v \<in> Str ` set ks" by auto
    then have "0 \<le> indexOf ks v" by (rule Cons.IH)
    with False show ?thesis by (simp add: Let_def)
  qed
qed

lemma validate_cases:
  "validateTxTypeAndHandleErrors s tx t =
     (if violations s tx = [] then Inr ()
      else Inl (InvalidPropertiesForTransactionTypeError (violations s tx) t))"
  by (simp add: validateTxTypeAndHandleErrors_def validateJSONSchema_def Let_def)

lemma violations_0x0:
  "violations transactionType0x0Schema tx =
     (if isNullish (accessList tx) then [] else [''accessList'']) @
     (if isNullish (maxFeePerGas tx) then [] else [''maxFeePerGas'']) @
     (if isNullish (maxPriorityFeePerGas tx) then [] else [''maxPriorityFeePerGas''])"
  by (simp add: transactionType0x0Schema_def property_def)

lemma violations_0x1:
  "violations transactionType0x1Schema tx =
     (if isNullish (maxFeePerGas tx) then [] else [''maxFeePerGas'']) @
     (if isNullish (maxPriorityFeePerGas tx) then [] else [''maxPriorityFeePerGas''])"
  by (simp add: transactionType0x1Schema_def property_def)

lemma violations_0x2:
  "violations transactionType0x2Schema tx =
     (if isNullish (gasPrice tx) then [] else [''gasPrice''])"
  by (simp add: transactionType0x2Schema_def property_def)

lemmas validate_simps = validate_cases violations_0x0 violations_0x1 violations_0x2

lemma switch_type_simps:
  "switch_type (Str ''0x0'') = Some (transactionType0x0Schema, ''0x0'')"
  "switch_type (Str ''0x1'') = Some (transactionType0x1Schema, ''0x1'')"
  "switch_type (Str ''0x2'') = Some (transactionType0x2Schema, ''0x2'')"
  by (simp_all add: switch_type_def)

lemma switch_type_default:
  "v \<notin> {Str ''0x0'', Str ''0x1'', Str ''0x2''} \<Longrightarrow> switch_type v = None"
  by (simp add: switch_type_def)

lemma isNullish_Str [simp]: "\<not> isNullish (Str s)"
  by (simp add: isNullish_def)

text \<open>Parsing what \<open>numberToHex\<close> renders gives the number back.\<close>

lemma hex_digit_table: "list_all (\<lambda>d. hex_digit_value (hex_digit d) = Some d) [0..<16]"
  by code_simp

lemma hex_digit_value_hex_digit: "d < 16 \<Longrightarrow> hex_digit_value (hex_digit d) = Some d"
  using hex_digit_table by (simp add: list_all_iff)

lemma parse_hex_digits_append:
  "parse_hex_digits acc (xs @ ys) =
     (case parse_hex_digits acc xs of None \<Rightarrow> None | Some a \<Rightarrow> parse_hex_digits a ys)"
  by (induction xs arbitrary: acc) (auto split: option.splits)

lemma parse_hex_digits_hex_digits: "parse_hex_digits 0 (hex_digits n) = Some n"
proof (induction n rule: hex_digits.induct)
  case (1 n)
  show ?case
  proof (cases "n < 16")
    case True
    then show ?thesis
      by (subst hex_digits.simps) (simp add: hex_digit_value_hex_digit)
  next
    case False
    with 1 have "parse_hex_digits 0 (hex_digits (n div 16)) = Some (n div 16)" by simp
    with False show ?thesis
      by (subst hex_digits.simps)
         (simp add: parse_hex_digits_append hex_digit_value_hex_digit)
  qed
qed

lemma hex_digits_not_Nil: "hex_digits n \<noteq> []"
  by (subst hex_digits.simps) simp

lemma hexToNumber_numberToHex: "hexToNumber (numberToHex n) = Some n"
  by (simp add: hexToNumber_def numberToHex_def hex_digits_not_Nil parse_hex_digits_hex_digits)

lemma byte_greater_127: "(127 < uint (b :: 8 word)) = (127 < unat b)"
proof -
  have "uint b = int (unat b)" by simp
  then show ?thesis by linarith
qed

section \<open>The hardfork fallback\<close>

text \<open>
  Claim C1. Take a transaction with no explicit type in which \<open>gas\<close>, \<open>maxFeePerGas\<close>,
  \<open>maxPriorityFeePerGas\<close> and \<open>accessList\<close> are all unset, and let \<open>name\<close> be the hardfork it
  resolves to: the \<open>hardfork\<close> field when that is set, else the hardfork of \<open>common\<close>. In a
  table that lists \<^verbatim>\<open>berlin\<close> before \<^verbatim>\<open>london\<close>, the classifier returns \<^verbatim>\<open>0x0\<close> when
  \<open>gasPrice\<close> is set and the rank of \<open>name\<close> is at or after London, \<^verbatim>\<open>0x0\<close> when \<open>gasPrice\<close> is
  set and \<open>name\<close> is Berlin, the indeterminate result when \<open>gasPrice\<close> is set and the rank of
  \<open>name\<close> is below Berlin's, and \<^verbatim>\<open>0x2\<close> when \<open>gasPrice\<close> is unset and the rank of \<open>name\<close> is
  at or after London.
\<close>

theorem hardfork_fallback_gasPrice_only:
  assumes "isNullish (type tx)" and "isNullish (gas tx)"
    and "isNullish (maxFeePerGas tx)" and "isNullish (maxPriorityFeePerGas tx)"
    and "isNullish (accessList tx)"
    and "hardfork tx = Str name \<or> (isNullish (hardfork tx) \<and> common tx = Some (Str name))"
    and "indexOf hfs (Str ''berlin'') < indexOf hfs (Str ''london'')"
  shows "(\<not> isNullish (gasPrice tx) \<and> indexOf hfs (Str ''london'') \<le> indexOf hfs (Str name)
            \<longrightarrow> defaultTransactionTypeParser fmt hfs tx = Inr (Str ''0x0''))
       \<and> (\<not> isNullish (gasPrice tx) \<and> name = ''berlin''
            \<longrightarrow> defaultTransactionTypeParser fmt hfs tx = Inr (Str ''0x0''))
       \<and> (\<not> isNullish (gasPrice tx) \<and> indexOf hfs (Str name) < indexOf hfs (Str ''berlin'')
            \<longrightarrow> defaultTransactionTypeParser fmt hfs tx = Inr Undefined)
       \<and> (isNullish (gasPrice tx) \<and> indexOf hfs (Str ''london'') \<le> indexOf hfs (Str name)
            \<longrightarrow> defaultTransactionTypeParser fmt hfs tx = Inr (Str ''0x2''))"
proof -
  from assms(6) have g: "givenHardfork tx = Str name"
    by (auto simp: givenHardfork_def)
  from assms(1-5) g assms(7) show ?thesis
    by (simp add: defaultTransactionTypeParser_def validate_simps Let_def number_is_undefined_def)
qed

theorem hardfork_fallback_gasPrice_only_witness:
  "defaultTransactionTypeParser format_uint example_hardforks (empty_tx\<lparr>gasPrice := Num 7, hardfork := Str ''london''\<rparr>) = Inr (Str ''0x0'')
   \<and> defaultTransactionTypeParser format_uint example_hardforks (empty_tx\<lparr>gasPrice := Num 7, hardfork := Str ''berlin''\<rparr>) = Inr (Str ''0x0'')
   \<and> defaultTransactionTypeParser format_uint example_hardforks (empty_tx\<lparr>gasPrice := Num 7, common := Some (Str ''homestead'')\<rparr>) = Inr Undefined
   \<and> defaultTransactionTypeParser format_uint example_hardforks (empty_tx\<lparr>hardfork := Null, common := Some (Str ''london'')\<rparr>) = Inr (Str ''0x2'')"
proof -
  note c = hardfork_fallback_gasPrice_only
  have a: "defaultTransactionTypeParser format_uint example_hardforks (empty_tx\<lparr>gasPrice := Num 7, hardfork := Str ''london''\<rparr>) = Inr (Str ''0x0'')"
    by (rule c [where name = "''london''", THEN conjunct1, THEN mp]; code_simp)
  have b: "defaultTransactionTypeParser format_uint example_hardforks (empty_tx\<lparr>gasPrice := Num 7, hardfork := Str ''berlin''\<rparr>) = Inr (Str ''0x0'')"
    by (rule c [where name = "''berlin''", THEN conjunct2, THEN conjunct1, THEN mp]; code_simp)
  have d: "defaultTransactionTypeParser format_uint example_hardforks (empty_tx\<lparr>gasPrice := Num 7, common := Some (Str ''homestead'')\<rparr>) = Inr Undefined"
    by (rule c [where name = "''homestead''", THEN conjunct2, THEN conjunct2, THEN conjunct1,
          THEN mp]; code_simp)
  have e: "defaultTransactionTypeParser format_uint example_hardforks (empty_tx\<lparr>hardfork := Null, common := Some (Str ''london'')\<rparr>) = Inr (Str ''0x2'')"
    by (rule c [where name = "''london''", THEN conjunct2, THEN conjunct2, THEN conjunct2,
          THEN mp]; code_simp)
  from a b d e show ?thesis by blast
qed

section \<open>Explicit types\<close>

text \<open>
  Claim C2. When the \<open>type\<close> field is exactly one of the tags \<^verbatim>\<open>0x0\<close>, \<^verbatim>\<open>0x1\<close>, \<^verbatim>\<open>0x2\<close>
  and the record has none of the fields its schema forbids (Legacy: \<open>accessList\<close>,
  \<open>maxFeePerGas\<close>, \<open>maxPriorityFeePerGas\<close>; AccessList: \<open>maxFeePerGas\<close>,
  \<open>maxPriorityFeePerGas\<close>; DynamicFee: \<open>gasPrice\<close>), the classifier returns that tag, whatever
  the other fields and the hardfork table are. The tag goes through the formatter on its way
  out, which leaves a canonical tag as it is.
\<close>

theorem explicit_type_returned:
  assumes "t \<in> {''0x0'', ''0x1'', ''0x2''}" and "type tx = Str t" and "fmt (Str t) = Str t"
    and "t = ''0x0'' \<longrightarrow> isNullish (accessList tx) \<and> isNullish (maxFeePerGas tx)
           \<and> isNullish (maxPriorityFeePerGas tx)"
    and "t = ''0x1'' \<longrightarrow> isNullish (maxFeePerGas tx) \<and> isNullish (maxPriorityFeePerGas tx)"
    and "t = ''0x2'' \<longrightarrow> isNullish (gasPrice tx)"
  shows "defaultTransactionTypeParser fmt hfs tx = Inr (Str t)"
  using assms
  by (auto simp: defaultTransactionTypeParser_def switch_type_simps validate_simps)

theorem explicit_type_returned_witness:
  "defaultTransactionTypeParser format_uint example_hardforks (empty_tx\<lparr>type := Str ''0x1'', gasPrice := Num 7, accessList := Arr []\<rparr>)
     = Inr (Str ''0x1'')"
  by (rule explicit_type_returned; code_simp)

text \<open>
  Claim C3. When the \<open>type\<close> field is \<^verbatim>\<open>0x0\<close> and \<open>accessList\<close> is set, the classifier
  returns no tag: it raises \<^verbatim>\<open>InvalidPropertiesForTransactionTypeError\<close>, whose field list
  has \<^verbatim>\<open>accessList\<close> in it and whose type is \<^verbatim>\<open>0x0\<close>. An explicit type does not bypass the
  validation.
\<close>

theorem explicit_legacy_with_accessList_raises:
  assumes "type tx = Str ''0x0''" and "\<not> isNullish (accessList tx)"
  shows "\<exists>fields. defaultTransactionTypeParser fmt hfs tx =
            Inl (InvalidPropertiesForTransactionTypeError fields ''0x0'')
          \<and> ''accessList'' \<in> set fields"
  using assms
  by (simp add: defaultTransactionTypeParser_def switch_type_simps validate_simps)

theorem explicit_legacy_with_accessList_raises_witness:
  "\<exists>fields. defaultTransactionTypeParser format_uint example_hardforks (empty_tx\<lparr>type := Str ''0x0'', gasPrice := Num 7, accessList := Arr []\<rparr>) =
       Inl (InvalidPropertiesForTransactionTypeError fields ''0x0'')
     \<and> ''accessList'' \<in> set fields"
  by (rule explicit_legacy_with_accessList_raises; code_simp)

text \<open>
  Claim C9. When the \<open>type\<close> field is set and is not exactly one of the strings \<^verbatim>\<open>0x0\<close>,
  \<^verbatim>\<open>0x1\<close>, \<^verbatim>\<open>0x2\<close> (another spelling of a tag such as \<^verbatim>\<open>0x00\<close> included), the classifier
  returns the formatted value of the field. No schema is consulted and no error is raised,
  whatever the other fields hold.
\<close>

theorem unrecognized_type_formatted:
  assumes "\<not> isNullish (type tx)" and "type tx \<notin> {Str ''0x0'', Str ''0x1'', Str ''0x2''}"
  shows "defaultTransactionTypeParser fmt hfs tx = Inr (fmt (type tx))"
  using assms
  by (simp add: defaultTransactionTypeParser_def switch_type_default)

theorem unrecognized_type_formatted_witness:
  "defaultTransactionTypeParser format_uint example_hardforks (empty_tx\<lparr>type := Str ''0x02'', gasPrice := Num 7\<rparr>) = Inr (Str ''0x2'')"
proof -
  have "defaultTransactionTypeParser format_uint example_hardforks (empty_tx\<lparr>type := Str ''0x02'', gasPrice := Num 7\<rparr>) =
          Inr (format_uint (type (empty_tx\<lparr>type := Str ''0x02'', gasPrice := Num 7\<rparr>)))"
    by (rule unrecognized_type_formatted; code_simp)
  also have "format_uint (type (empty_tx\<lparr>type := Str ''0x02'', gasPrice := Num 7\<rparr>))
          = Str ''0x2''"
    by code_simp
  finally show ?thesis .
qed

section \<open>Types inferred from the fields\<close>

text \<open>
  Claim C4, amended. When the record has no explicit type, \<open>gas\<close> and \<open>gasPrice\<close> are both set
  and none of \<open>maxFeePerGas\<close>, \<open>maxPriorityFeePerGas\<close>, \<open>accessList\<close> is set, the classifier
  returns \<^verbatim>\<open>0x0\<close>, whatever the hardfork context is.
\<close>

theorem legacy_fee_shape_untyped:
  assumes "isNullish (type tx)" and "\<not> isNullish (gas tx)" and "\<not> isNullish (gasPrice tx)"
    and "isNullish (maxFeePerGas tx)" and "isNullish (maxPriorityFeePerGas tx)"
    and "isNullish (accessList tx)"
  shows "defaultTransactionTypeParser fmt hfs tx = Inr (Str ''0x0'')"
  using assms
  by (simp add: defaultTransactionTypeParser_def validate_simps)

theorem legacy_fee_shape_untyped_witness:
  "defaultTransactionTypeParser format_uint example_hardforks (empty_tx\<lparr>gas := Num 21000, gasPrice := Num 7, hardfork := Str ''homestead''\<rparr>)
     = Inr (Str ''0x0'')"
  by (rule legacy_fee_shape_untyped; code_simp)

text \<open>
  Claim C4 as it is written covers every record with that fee shape, typed ones too. A record
  with \<open>gas\<close> and \<open>gasPrice\<close> set, no dynamic-fee field, no access list and the explicit type
  \<^verbatim>\<open>0x1\<close> is classified by its type: the result is \<^verbatim>\<open>0x1\<close>, not \<^verbatim>\<open>0x0\<close>.
\<close>

theorem legacy_fee_shape_typed_counterexample:
  "\<not> isNullish (gas (empty_tx\<lparr>type := Str ''0x1'', gas := Num 21000, gasPrice := Num 7\<rparr>))
   \<and> \<not> isNullish (gasPrice (empty_tx\<lparr>type := Str ''0x1'', gas := Num 21000, gasPrice := Num 7\<rparr>))
   \<and> isNullish (maxFeePerGas (empty_tx\<lparr>type := Str ''0x1'', gas := Num 21000, gasPrice := Num 7\<rparr>))
   \<and> isNullish
       (maxPriorityFeePerGas (empty_tx\<lparr>type := Str ''0x1'', gas := Num 21000, gasPrice := Num 7\<rparr>))
   \<and> isNullish (accessList (empty_tx\<lparr>type := Str ''0x1'', gas := Num 21000, gasPrice := Num 7\<rparr>))
   \<and> defaultTransactionTypeParser format_uint example_hardforks (empty_tx\<lparr>type := Str ''0x1'', gas := Num 21000, gasPrice := Num 7\<rparr>)
       = Inr (Str ''0x1'')
   \<and> defaultTransactionTypeParser format_uint example_hardforks (empty_tx\<lparr>type := Str ''0x1'', gas := Num 21000, gasPrice := Num 7\<rparr>)
       \<noteq> Inr (Str ''0x0'')"
  by code_simp

text \<open>
  Claim C5, amended. When the record has no explicit type, \<open>maxFeePerGas\<close> is set and
  \<open>gasPrice\<close> is unset, the classifier returns \<^verbatim>\<open>0x2\<close>.
\<close>

theorem dynamic_fee_shape_untyped:
  assumes "isNullish (type tx)" and "\<not> isNullish (maxFeePerGas tx)"
    and "isNullish (gasPrice tx)"
  shows "defaultTransactionTypeParser fmt hfs tx = Inr (Str ''0x2'')"
  using assms
  by (simp add: defaultTransactionTypeParser_def validate_simps)

theorem dynamic_fee_shape_untyped_witness:
  "defaultTransactionTypeParser format_uint example_hardforks (empty_tx\<lparr>gas := Num 21000, maxFeePerGas := Num 7, accessList := Arr []\<rparr>)
     = Inr (Str ''0x2'')"
  by (rule dynamic_fee_shape_untyped; code_simp)

text \<open>
  Claim C5 as it is written covers typed records too. A record with \<open>maxFeePerGas\<close> set,
  \<open>gasPrice\<close> unset and the explicit type \<^verbatim>\<open>0x0\<close> is checked against the Legacy schema, and
  the classifier raises instead of returning \<^verbatim>\<open>0x2\<close>.
\<close>

theorem dynamic_fee_shape_typed_counterexample:
  "\<not> isNullish (maxFeePerGas (empty_tx\<lparr>type := Str ''0x0'', maxFeePerGas := Num 7\<rparr>))
   \<and> isNullish (gasPrice (empty_tx\<lparr>type := Str ''0x0'', maxFeePerGas := Num 7\<rparr>))
   \<and> defaultTransactionTypeParser format_uint example_hardforks (empty_tx\<lparr>type := Str ''0x0'', maxFeePerGas := Num 7\<rparr>)
       = Inl (InvalidPropertiesForTransactionTypeError [''maxFeePerGas''] ''0x0'')
   \<and> defaultTransactionTypeParser format_uint example_hardforks (empty_tx\<lparr>type := Str ''0x0'', maxFeePerGas := Num 7\<rparr>) \<noteq> Inr (Str ''0x2'')"
  by code_simp

section \<open>Indeterminate results\<close>

text \<open>
  Claim C6. Take a transaction with no explicit type, without the pair of \<open>gas\<close> and
  \<open>gasPrice\<close>, with no dynamic-fee field and no access list. When no hardfork name can be
  resolved from the record or its \<open>common\<close> configuration, or when the resolved name is not a
  key of the hardfork table, the classifier returns the indeterminate result and raises
  nothing. The table is any one that has \<^verbatim>\<open>berlin\<close> and \<^verbatim>\<open>london\<close> among its keys.
\<close>

theorem indeterminate_never_raises:
  assumes "isNullish (type tx)"
    and "\<not> (\<not> isNullish (gas tx) \<and> \<not> isNullish (gasPrice tx))"
    and "isNullish (maxFeePerGas tx)" and "isNullish (maxPriorityFeePerGas tx)"
    and "isNullish (accessList tx)"
    and "''berlin'' \<in> set hfs" and "''london'' \<in> set hfs"
    and "isNullish (givenHardfork tx)
         \<or> (\<exists>name. givenHardfork tx = Str name \<and> name \<notin> set hfs)"
  shows "defaultTransactionTypeParser fmt hfs tx = Inr Undefined"
proof -
  from assms(8) have "givenHardfork tx \<notin> Str ` set hfs"
    by (auto simp: isNullish_def)
  then have idx: "indexOf hfs (givenHardfork tx) = - 1" by (rule indexOf_absent)
  from assms(6) have b: "0 \<le> indexOf hfs (Str ''berlin'')" by (intro indexOf_present) simp
  from assms(7) have l: "0 \<le> indexOf hfs (Str ''london'')" by (intro indexOf_present) simp
  from assms(1-5) idx b l show ?thesis
    by (simp add: defaultTransactionTypeParser_def validate_simps Let_def number_is_undefined_def)
qed

theorem indeterminate_never_raises_witness:
  "defaultTransactionTypeParser format_uint example_hardforks (empty_tx\<lparr>gasPrice := Num 7, hardfork := Str ''atlantis''\<rparr>) = Inr Undefined
   \<and> defaultTransactionTypeParser format_uint example_hardforks (empty_tx\<lparr>gas := Num 21000, hardfork := Null, common := Some Null\<rparr>) = Inr Undefined"
proof -
  have a: "defaultTransactionTypeParser format_uint example_hardforks (empty_tx\<lparr>gasPrice := Num 7, hardfork := Str ''atlantis''\<rparr>) = Inr Undefined"
    by (rule indeterminate_never_raises)
       (simp_all add: empty_tx_def isNullish_def givenHardfork_def example_hardforks_def)
  have b: "defaultTransactionTypeParser format_uint example_hardforks (empty_tx\<lparr>gas := Num 21000, hardfork := Null, common := Some Null\<rparr>)
             = Inr Undefined"
    by (rule indeterminate_never_raises)
       (simp_all add: empty_tx_def isNullish_def givenHardfork_def example_hardforks_def)
  from a b show ?thesis by simp
qed

text \<open>
  Claim C10. When control reaches the validation of the \<open>gasPrice\<close>-only shape (no explicit
  type, the tests for \<open>gas\<close> with \<open>gasPrice\<close>, for the dynamic-fee fields and for the access
  list all unmatched, \<open>gasPrice\<close> set), the fields \<open>accessList\<close>, \<open>maxFeePerGas\<close> and
  \<open>maxPriorityFeePerGas\<close> are all unset, so the validation against the Legacy schema passes
  and the classifier returns a value instead of raising.
\<close>

theorem gasPrice_only_validation_passes:
  assumes "isNullish (type tx)"
    and "\<not> (\<not> isNullish (gas tx) \<and> \<not> isNullish (gasPrice tx))"
    and "\<not> (\<not> isNullish (maxFeePerGas tx) \<or> \<not> isNullish (maxPriorityFeePerGas tx))"
    and "\<not> \<not> isNullish (accessList tx)"
    and "\<not> isNullish (gasPrice tx)"
  shows "isNullish (accessList tx) \<and> isNullish (maxFeePerGas tx)
       \<and> isNullish (maxPriorityFeePerGas tx)
       \<and> validateTxTypeAndHandleErrors transactionType0x0Schema tx ''0x0'' = Inr ()
       \<and> (\<exists>r. defaultTransactionTypeParser fmt hfs tx = Inr r)"
  using assms
  by (simp add: defaultTransactionTypeParser_def validate_simps Let_def number_is_undefined_def)

theorem gasPrice_only_validation_passes_witness:
  "isNullish (accessList (empty_tx\<lparr>gasPrice := Num 7, hardfork := Str ''berlin''\<rparr>))
   \<and> isNullish (maxFeePerGas (empty_tx\<lparr>gasPrice := Num 7, hardfork := Str ''berlin''\<rparr>))
   \<and> isNullish (maxPriorityFeePerGas (empty_tx\<lparr>gasPrice := Num 7, hardfork := Str ''berlin''\<rparr>))
   \<and> validateTxTypeAndHandleErrors transactionType0x0Schema
       (empty_tx\<lparr>gasPrice := Num 7, hardfork := Str ''berlin''\<rparr>) ''0x0'' = Inr ()
   \<and> (\<exists>r. defaultTransactionTypeParser format_uint example_hardforks (empty_tx\<lparr>gasPrice := Num 7, hardfork := Str ''berlin''\<rparr>) = Inr r)"
  by (rule gasPrice_only_validation_passes; code_simp)

section \<open>Classifying again with the returned tag\<close>

text \<open>
  Claim C7, amended. Let the classifier return a tag \<open>t\<close> on a record, with a formatter that
  leaves the three canonical tags as they are. If the record's \<open>type\<close> field is unset, or is
  exactly one of \<^verbatim>\<open>0x0\<close>, \<^verbatim>\<open>0x1\<close>, \<^verbatim>\<open>0x2\<close>, or if \<open>t\<close> is none of these three tags and the
  formatter leaves \<open>t\<close> as it is, then the classifier on the same record with \<open>type\<close> set to
  \<open>t\<close> returns \<open>t\<close> again and does not raise.
\<close>

theorem reclassify_idempotent:
  assumes "fmt (Str ''0x0'') = Str ''0x0''" and "fmt (Str ''0x1'') = Str ''0x1''"
    and "fmt (Str ''0x2'') = Str ''0x2''"
    and "defaultTransactionTypeParser fmt hfs tx = Inr (Str t)"
    and "isNullish (type tx) \<or> type tx \<in> {Str ''0x0'', Str ''0x1'', Str ''0x2''}
         \<or> (t \<notin> {''0x0'', ''0x1'', ''0x2''} \<and> fmt (Str t) = Str t)"
  shows "defaultTransactionTypeParser fmt hfs (tx\<lparr>type := Str t\<rparr>) = Inr (Str t)"
proof -
  consider (untyped) "isNullish (type tx)"
    | (known) "type tx \<in> {Str ''0x0'', Str ''0x1'', Str ''0x2''}"
    | (opaque) "t \<notin> {''0x0'', ''0x1'', ''0x2''}" "fmt (Str t) = Str t"
    using assms(5) by blast
  then show ?thesis
  proof cases
    case untyped
    with assms(1-4) show ?thesis
      by (auto simp: defaultTransactionTypeParser_def switch_type_simps validate_simps Let_def
            number_is_undefined_def split: if_splits)
  next
    case known
    with assms(1-4) have "type tx = Str t"
      by (auto simp: defaultTransactionTypeParser_def switch_type_simps validate_simps
            split: if_splits)
    then have "tx\<lparr>type := Str t\<rparr> = tx" by simp
    with assms(4) show ?thesis by simp
  next
    case opaque
    then have "switch_type (Str t) = None" by (simp add: switch_type_def)
    with opaque show ?thesis by (simp add: defaultTransactionTypeParser_def)
  qed
qed

theorem reclassify_idempotent_witness:
  "defaultTransactionTypeParser format_uint example_hardforks (empty_tx\<lparr>gas := Num 21000, hardfork := Str ''london''\<rparr>\<lparr>type := Str ''0x2''\<rparr>)
     = Inr (Str ''0x2'')"
  by (rule reclassify_idempotent; code_simp)

text \<open>
  Claim C7 as it is written covers every record. With the type spelled \<^verbatim>\<open>0x00\<close> and an
  access list, the classifier validates nothing and returns the formatted type \<^verbatim>\<open>0x0\<close>; with
  \<open>type\<close> set to that tag the same record fails the Legacy schema and the classifier raises.
\<close>

theorem reclassify_respelled_type_counterexample:
  "defaultTransactionTypeParser format_uint example_hardforks (empty_tx\<lparr>type := Str ''0x00'', accessList := Arr []\<rparr>) = Inr (Str ''0x0'')
   \<and> defaultTransactionTypeParser format_uint example_hardforks (empty_tx\<lparr>type := Str ''0x00'', accessList := Arr []\<rparr>\<lparr>type := Str ''0x0''\<rparr>)
       = Inl (InvalidPropertiesForTransactionTypeError [''accessList''] ''0x0'')"
  by code_simp

section \<open>The first byte of an encoded transaction\<close>

text \<open>
  Claim C8. On a byte sequence that is not empty the sniffer does not fail and reads the
  first byte only: it returns \<^verbatim>\<open>0x0\<close> when the unsigned value of that byte exceeds 127 and
  otherwise the byte itself in hexadecimal behind the prefix \<^verbatim>\<open>0x\<close>, a string that parses
  back to the byte. Byte \<^verbatim>\<open>0xc0\<close> gives \<^verbatim>\<open>0x0\<close> and byte \<^verbatim>\<open>0x02\<close> gives \<^verbatim>\<open>0x2\<close>.
\<close>

theorem sniffer_first_byte:
  "detectRawTransactionType (b # rest) =
     Inr (if 127 < unat b then ''0x0'' else ''0x'' @ hex_digits (unat b))
   \<and> hexToNumber (''0x'' @ hex_digits (unat b)) = Some (unat b)
   \<and> detectRawTransactionType [0xc0] = Inr ''0x0''
   \<and> detectRawTransactionType [0x02] = Inr ''0x2''"
proof -
  have gen: "detectRawTransactionType (b # rest) =
     Inr (if 127 < unat b then ''0x0'' else ''0x'' @ hex_digits (unat b))"
    by (simp add: detectRawTransactionType_def greater_than_def first_byte_def toHex_def
          numberToHex_def byte_greater_127)
  have rt: "hexToNumber (''0x'' @ hex_digits (unat b)) = Some (unat b)"
    using hexToNumber_numberToHex [of "unat b"] by (simp add: numberToHex_def)
  have e1: "detectRawTransactionType [0xc0] = Inr ''0x0''"
    by code_simp
  have e2: "detectRawTransactionType [0x02] = Inr ''0x2''"
    by code_simp
  from gen rt e1 e2 show ?thesis by blast
qed

theorem sniffer_first_byte_witness:
  "detectRawTransactionType [0x7f, 0xff] = Inr ''0x7f''
   \<and> detectRawTransactionType [0x80] = Inr ''0x0''"
proof -
  have a: "detectRawTransactionType [0x7f, 0xff] = Inr ''0x7f''"
    using sniffer_first_byte [of "0x7f" "[0xff]"] by (simp add: hex_digits.simps hex_digit_def)
  have b: "detectRawTransactionType [0x80] = Inr ''0x0''"
    using sniffer_first_byte [of "0x80" "[]"] by simp
  from a b show ?thesis by simp
qed

end
